theory Spec2Isabelle
  imports Main "HOL-Library.Word"
begin

section \<open>The Anaconda Cloud package uploader (conda\_upload.sh)\<close>

text \<open>
  The only program text of the repository under verification is the shell script that
  uploads the freshly built conda package. Its inputs are five environment variables,
  the content of the build directory
  \<^verbatim>\<open>/home/travis/miniconda/conda-bld/linux-64\<close> and the outcome of the upload command.
  Its visible effects are the external commands it runs and its exit status.

  Modelling decisions.
  \<^item> An unset variable and an empty one are the same string \<open>''''\<close>: the script only reads
    variables through \<^verbatim>\<open>-z\<close>, string comparison and \<^verbatim>\<open>${V:-default}\<close>, none of which
    tells the two apart.
  \<^item> The exit status is a byte, so \<^verbatim>\<open>exit -1\<close> is \<open>- 1 :: 8 word\<close>, that is 255.
  \<^item> The build directory is the list of the names of the regular files in it, and it is
    taken to hold no subdirectory whose name matches the tarball pattern: \<^verbatim>\<open>ls\<close> would
    list such a directory by its content, which is outside the model.
  \<^item> Where the script expands \<^verbatim>\<open>PACKAGE_NAME\<close>, the path of the tarball or the version
    without quotes, or puts the name into the glob and the sed pattern, the value is
    taken to be free of blanks, of slashes and of shell and regular-expression
    metacharacters, so that it stands for itself. The predicates \<open>shell_ordinary\<close>,
    \<open>regex_ordinary\<close> and \<open>ascii\<close> below say so, and every general statement about a step
    that depends on it carries them as hypotheses.
  \<^item> Lines written to the log by \<^verbatim>\<open>echo\<close> are not part of the model.
\<close>

subsection \<open>Environment, actions, result\<close>

record env =
  CONDA_DEFAULT_ENV :: string
  TRAVIS :: string
  TRAVIS_BRANCH :: string
  PACKAGE_NAME :: string
  ANACONDA_TOKEN :: string

datatype action =
    Mkdir string
  | Cp string string
  | Cd string
  | Conda_convert string
  | Conda_install string
  | Run string

record result =
  actions :: "action list"
  status :: "8 word"

subsection \<open>Pathname expansion\<close>

datatype glob_tok = Lit char | Star

fun glob_match :: "glob_tok list \<Rightarrow> string \<Rightarrow> bool" where
  "glob_match [] s = (s = [])"
| "glob_match (Lit c # p) [] = False"
| "glob_match (Lit c # p) (d # s) = (c = d \<and> glob_match p s)"
| "glob_match (Star # p) [] = glob_match p []"
| "glob_match (Star # p) (d # s) = (glob_match p (d # s) \<or> glob_match (Star # p) s)"

definition bld_prefix :: string where
  "bld_prefix = ''/home/travis/miniconda''"

definition linux64 :: string where
  "linux64 = bld_prefix @ ''/conda-bld/linux-64/''"

text \<open>The pattern \<^verbatim>\<open>${PACKAGE_NAME}-*-*.tar.bz2\<close>.\<close>

definition tarball_glob :: "string \<Rightarrow> glob_tok list" where
  "tarball_glob name =
     map Lit name @ [Lit (CHR ''-''), Star, Lit (CHR ''-''), Star] @ map Lit ''.tar.bz2''"

definition nl :: char where
  "nl = CHR 0x0A"

text \<open>Command substitution drops the trailing newlines of the captured output.\<close>

definition strip_trailing_nl :: "string \<Rightarrow> string" where
  "strip_trailing_nl s = rev (dropWhile (\<lambda>c. c = nl) (rev s))"

text \<open>
  \<^verbatim>\<open>tarball=`/bin/ls -1 ${bld_prefix}/conda-bld/linux-64/${PACKAGE_NAME}-*-*.tar.bz2`\<close>:
  one path per line for every file the pattern matches, and nothing on standard output
  when it matches none (\<^verbatim>\<open>ls\<close> then complains on standard error). \<^verbatim>\<open>ls\<close> sorts
  the paths; the script only depends on the listing when it holds a single path.

  The definition is the listing for a name that is \<open>shell_ordinary\<close>: a single path
  component that the shell neither splits nor reads as a pattern, so that the pattern
  selects the files of the build directory whose names start with the name itself. For
  a name with a slash in it (\<^verbatim>\<open>./pymer4\<close>) the shell looks the files up along that path,
  which the definition does not follow.
\<close>

definition ls_tarballs :: "string \<Rightarrow> string list \<Rightarrow> string" where
  "ls_tarballs name dir =
     strip_trailing_nl
       (concat (map (\<lambda>f. linux64 @ f @ [nl]) (filter (glob_match (tarball_glob name)) dir)))"

subsection \<open>\<^verbatim>\<open>wc -w\<close>\<close>

definition is_space :: "char \<Rightarrow> bool" where
  "is_space c = (c \<in> set [CHR 0x20, CHR 0x09, CHR 0x0A, CHR 0x0B, CHR 0x0C, CHR 0x0D])"

text \<open>The flag tells whether the previous character was inside a word.\<close>

fun wc_scan :: "bool \<Rightarrow> string \<Rightarrow> nat" where
  "wc_scan inw [] = 0"
| "wc_scan inw (c # cs) =
     (if is_space c then wc_scan False cs
      else (if inw then 0 else 1) + wc_scan True cs)"

definition wc_w :: "string \<Rightarrow> nat" where
  "wc_w s = wc_scan False s"

subsection \<open>The two sed substitutions\<close>

text \<open>
  \<^verbatim>\<open>sed -n "s/.*${PACKAGE_NAME}-\(.\+\)-.*/\1/p"\<close>. Both ends of the pattern are
  \<^verbatim>\<open>.*\<close>, so a match covers the whole line and the line is replaced by group 1. The
  leading \<^verbatim>\<open>.*\<close> is greedy: the occurrence of \<^verbatim>\<open>NAME-\<close> furthest to the right that
  still lets the rest match is taken. Group 1 is greedy too: it is the longest non-empty
  text followed by a dash. Without a match nothing is printed.

  The definition is the substitution for a name that is \<open>regex_ordinary\<close>: the script
  puts the name into the regular expression as it is, so a dot in the name would stand
  for any character there, whereas the definition compares the name letter by letter.
\<close>

fun upto_last_dash :: "string \<Rightarrow> string option" where
  "upto_last_dash [] = None"
| "upto_last_dash (c # cs) =
     (case upto_last_dash cs of
        Some v \<Rightarrow> Some (c # v)
      | None \<Rightarrow> (case cs of
                  [] \<Rightarrow> None
                | d # _ \<Rightarrow> if d = CHR ''-'' then Some [c] else None))"

fun sed_version_opt :: "string \<Rightarrow> string \<Rightarrow> string option" where
  "sed_version_opt name [] = None"
| "sed_version_opt name (c # cs) =
     (case sed_version_opt name cs of
        Some v \<Rightarrow> Some v
      | None \<Rightarrow>
          if take (length name + 1) (c # cs) = name @ ''-''
          then upto_last_dash (drop (length name + 1) (c # cs))
          else None)"

definition sed_version :: "string \<Rightarrow> string \<Rightarrow> string" where
  "sed_version name line = (case sed_version_opt name line of None \<Rightarrow> [] | Some v \<Rightarrow> v)"

text \<open>
  \<^verbatim>\<open>sed -n "s/\(\([0-9]\+\.\)\{1,2\}[0-9]\+\).*/\1/p"\<close>. The pattern is not anchored at
  the start of the line: the leftmost position where it matches is taken, the text
  before that position stays, and the match (which runs to the end of the line because
  of the final \<^verbatim>\<open>.*\<close>) is replaced by group 1. Group 1 is two or three runs of digits
  separated by dots, three when possible.
\<close>

definition is_digit :: "char \<Rightarrow> bool" where
  "is_digit c = (c \<in> set ''0123456789'')"

definition mmp_here :: "string \<Rightarrow> string option" where
  "mmp_here s =
     (let d1 = takeWhile is_digit s; r1 = dropWhile is_digit s in
      if d1 = [] then None
      else case r1 of
        [] \<Rightarrow> None
      | c1 # r2 \<Rightarrow>
          if c1 \<noteq> CHR ''.'' then None
          else let d2 = takeWhile is_digit r2; r3 = dropWhile is_digit r2 in
            if d2 = [] then None
            else case r3 of
              [] \<Rightarrow> Some (d1 @ ''.'' @ d2)
            | c2 # r4 \<Rightarrow>
                let d3 = takeWhile is_digit r4 in
                if c2 = CHR ''.'' \<and> d3 \<noteq> [] then Some (d1 @ ''.'' @ d2 @ ''.'' @ d3)
                else Some (d1 @ ''.'' @ d2))"

fun sed_mmp_opt :: "string \<Rightarrow> string option" where
  "sed_mmp_opt [] = None"
| "sed_mmp_opt (c # cs) =
     (case mmp_here (c # cs) of
        Some g \<Rightarrow> Some g
      | None \<Rightarrow> map_option ((#) c) (sed_mmp_opt cs))"

definition sed_mmp :: "string \<Rightarrow> string" where
  "sed_mmp line = (case sed_mmp_opt line of None \<Rightarrow> [] | Some m \<Rightarrow> m)"

subsection \<open>The script\<close>

text \<open>
  \<^verbatim>\<open>label="dry-run"\<close>, then the two tests on the branch, made only when the version is
  its own Major.Minor.Patch portion.
\<close>

definition compute_label :: "string \<Rightarrow> string \<Rightarrow> string \<Rightarrow> string" where
  "compute_label version mmp branch =
     (if version = mmp then
        (let label = (if branch = ''master'' then ''pre-release'' else ''dry-run'')
         in if branch = ''v'' @ mmp then ''main'' else label)
      else ''dry-run'')"

definition conda_cmd :: "string \<Rightarrow> string \<Rightarrow> string \<Rightarrow> string" where
  "conda_cmd token name label =
     ''anaconda --token '' @ token @ '' upload ./**/'' @ name @ ''*.tar.bz2 --label '' @ label
       @ '' --skip-existing''"

definition convert_steps :: "string \<Rightarrow> string \<Rightarrow> action list" where
  "convert_steps name tarball =
     [Mkdir (bld_prefix @ ''/conda-convert/linux-64''),
      Cp tarball (bld_prefix @ ''/conda-convert/linux-64''),
      Cd (bld_prefix @ ''/conda-convert''),
      Conda_convert (''linux-64/'' @ name @ ''*tar.bz2'')]"

definition conda_upload :: "env \<Rightarrow> string list \<Rightarrow> bool \<Rightarrow> result" where
  "conda_upload e dir upload_ok =
     (if CONDA_DEFAULT_ENV e = [] then \<lparr>actions = [], status = - 1\<rparr>
      else if TRAVIS e \<noteq> ''true'' \<or> TRAVIS_BRANCH e = [] \<or> PACKAGE_NAME e = []
      then \<lparr>actions = [], status = - 2\<rparr>
      else
        let tarball = ls_tarballs (PACKAGE_NAME e) dir;
            n_tarballs = wc_w (tarball @ [nl])
        in if n_tarballs \<noteq> 1 then \<lparr>actions = [], status = - 3\<rparr>
        else
          let version = sed_version (PACKAGE_NAME e) tarball;
              mmp = sed_mmp version;
              label = compute_label version mmp (TRAVIS_BRANCH e);
              token = (if ANACONDA_TOKEN e = [] then ''[not_set]'' else ANACONDA_TOKEN e);
              cmd = conda_cmd token (PACKAGE_NAME e) label;
              done = convert_steps (PACKAGE_NAME e) tarball
          in if token \<noteq> ''[not_set]'' \<and> (label = ''main'' \<or> label = ''pre-release'')
             then (if upload_ok
                   then \<lparr>actions = done @ [Conda_install ''anaconda-client'', Run cmd], status = 0\<rparr>
                   else \<lparr>actions = done @ [Conda_install ''anaconda-client'', Run cmd],
                          status = - 5\<rparr>)
             else \<lparr>actions = done, status = 0\<rparr>)"

subsection \<open>What the header of the script promises\<close>

text \<open>
  A package tarball of \<open>name\<close> is a file called \<^verbatim>\<open>name-VERSION-BUILD.tar.bz2\<close>. This is
  the reading of the pattern \<^verbatim>\<open>${PACKAGE_NAME}-*-*.tar.bz2\<close> that does not go through
  \<open>glob_match\<close>.
\<close>

definition package_tarball :: "string \<Rightarrow> string \<Rightarrow> bool" where
  "package_tarball name f = (\<exists>a b. f = name @ ''-'' @ a @ ''-'' @ b @ ''.tar.bz2'')"

text \<open>
  A word that the shell leaves alone when it is expanded without quotes, and that names
  an entry of the directory it is looked up in: no blank to split at, no character of a
  pathname pattern and no slash.
\<close>

definition shell_ordinary :: "string \<Rightarrow> bool" where
  "shell_ordinary s =
     (\<forall>c \<in> set s. c \<notin> set [CHR 0x20, CHR 0x09, CHR 0x0A,
                               CHR ''*'', CHR ''?'', CHR ''['', CHR '']'', CHR 0x5C,
                               CHR ''/''])"

text \<open>
  A word that stands for itself inside the sed command: no character that a basic
  regular expression reads as an operator, no slash (the delimiter of the command) and
  no newline.
\<close>

definition regex_ordinary :: "string \<Rightarrow> bool" where
  "regex_ordinary s =
     (\<forall>c \<in> set s. c \<notin> set [CHR ''.'', CHR ''*'', CHR ''['', CHR '']'', CHR 0x5C,
                               CHR ''^'', CHR ''$'', CHR ''/'', CHR 0x0A])"

text \<open>Bytes that are characters on their own in every locale.\<close>

definition ascii :: "string \<Rightarrow> bool" where
  "ascii s = (\<forall>c \<in> set s. of_char c < (128 :: nat))"

section \<open>Properties of the uploader\<close>

subsection \<open>The pattern matches the package tarballs\<close>

lemma glob_lit: "glob_match (Lit c # p) s \<longleftrightarrow> (\<exists>r. s = c # r \<and> glob_match p r)"
  by (cases s) auto

lemma glob_lits: "glob_match (map Lit p @ q) s \<longleftrightarrow> (\<exists>r. s = p @ r \<and> glob_match q r)"
proof (induction p arbitrary: s)
  case Nil
  show ?case by simp
next
  case (Cons c p)
  show ?case by (cases s) (auto simp: Cons.IH)
qed

lemma glob_star: "glob_match (Star # q) s \<longleftrightarrow> (\<exists>a b. s = a @ b \<and> glob_match q b)"
proof (induction s)
  case Nil
  show ?case by simp
next
  case (Cons d s)
  show ?case
    by (simp add: Cons.IH) (metis append_Cons append_Nil list.exhaust list.inject)
qed

lemma glob_lits_end: "glob_match (map Lit p) s \<longleftrightarrow> s = p"
  using glob_lits [of p "[]" s] by auto

lemma glob_tarball: "glob_match (tarball_glob name) f \<longleftrightarrow> package_tarball name f"
proof
  assume "glob_match (tarball_glob name) f"
  then obtain a b where "f = name @ CHR ''-'' # a @ CHR ''-'' # b @ ''.tar.bz2''"
    unfolding tarball_glob_def
    by (simp only: glob_lits append_Cons append_Nil glob_lit glob_star glob_lits_end) blast
  then show "package_tarball name f"
    unfolding package_tarball_def by auto
next
  assume "package_tarball name f"
  then obtain a b where f: "f = name @ CHR ''-'' # a @ CHR ''-'' # b @ ''.tar.bz2''"
    unfolding package_tarball_def by auto
  have "glob_match (Star # map Lit ''.tar.bz2'') (b @ ''.tar.bz2'')"
    unfolding glob_star glob_lits_end by blast
  then have "glob_match (Lit (CHR ''-'') # Star # map Lit ''.tar.bz2'')
               (CHR ''-'' # b @ ''.tar.bz2'')"
    by simp
  then have "glob_match (Star # Lit (CHR ''-'') # Star # map Lit ''.tar.bz2'')
               (a @ CHR ''-'' # b @ ''.tar.bz2'')"
    unfolding glob_star [of "Lit (CHR ''-'') # Star # map Lit ''.tar.bz2''"] by blast
  then have "glob_match (Lit (CHR ''-'') # Star # Lit (CHR ''-'') # Star # map Lit ''.tar.bz2'')
               (CHR ''-'' # a @ CHR ''-'' # b @ ''.tar.bz2'')"
    by (simp only: glob_match.simps simp_thms)
  then show "glob_match (tarball_glob name) f"
    unfolding tarball_glob_def f glob_lits [of name] by (simp only: append_Cons append_Nil) blast
qed

subsection \<open>Counting the listed paths\<close>

lemma wc_scan_nl: "wc_scan b (s @ nl # rest) = wc_scan b s + wc_scan False rest"
  by (induction s arbitrary: b) (simp_all add: is_space_def nl_def)

lemma wc_scan_only_nl: "\<forall>c \<in> set u. c = nl \<Longrightarrow> wc_scan b u = 0"
  by (induction u arbitrary: b) (simp_all add: is_space_def nl_def)

lemma wc_scan_append_nls: "\<forall>c \<in> set u. c = nl \<Longrightarrow> wc_scan b (t @ u) = wc_scan b t"
  by (induction t arbitrary: b) (simp_all add: wc_scan_only_nl)

lemma strip_trailing_nl_decomp:
  "\<exists>u. s = strip_trailing_nl s @ u \<and> (\<forall>c \<in> set u. c = nl)"
proof -
  let ?P = "\<lambda>c. c = nl"
  have "rev s = takeWhile ?P (rev s) @ dropWhile ?P (rev s)" by simp
  then have "s = rev (dropWhile ?P (rev s)) @ rev (takeWhile ?P (rev s))"
    by (metis rev_append rev_rev_ident)
  moreover have "\<forall>c \<in> set (rev (takeWhile ?P (rev s))). c = nl"
    by (auto dest: set_takeWhileD)
  ultimately show ?thesis unfolding strip_trailing_nl_def by blast
qed

lemma wc_scan_strip: "wc_scan b (strip_trailing_nl s) = wc_scan b s"
proof -
  obtain u where u: "s = strip_trailing_nl s @ u" "\<forall>c \<in> set u. c = nl"
    using strip_trailing_nl_decomp by blast
  have "wc_scan b (strip_trailing_nl s @ u) = wc_scan b (strip_trailing_nl s)"
    using u(2) by (rule wc_scan_append_nls)
  with u(1) show ?thesis by simp
qed

lemma wc_scan_path: "1 \<le> wc_scan False (linux64 @ f)"
  by (simp add: linux64_def bld_prefix_def is_space_def)

lemma wc_scan_listing:
  "length fs \<le> wc_scan False (concat (map (\<lambda>f. linux64 @ f @ [nl]) fs))"
proof (induction fs)
  case Nil
  show ?case by simp
next
  case (Cons f fs)
  have "wc_scan False (concat (map (\<lambda>f. linux64 @ f @ [nl]) (f # fs)))
        = wc_scan False ((linux64 @ f) @ nl # concat (map (\<lambda>f. linux64 @ f @ [nl]) fs))"
    by simp
  also have "\<dots> = wc_scan False (linux64 @ f)
                    + wc_scan False (concat (map (\<lambda>f. linux64 @ f @ [nl]) fs))"
    by (rule wc_scan_nl)
  finally show ?case using Cons.IH wc_scan_path [of f] by simp
qed

lemma n_tarballs_eq:
  "wc_w (ls_tarballs name dir @ [nl])
   = wc_scan False
       (concat (map (\<lambda>f. linux64 @ f @ [nl]) (filter (glob_match (tarball_glob name)) dir)))"
  using wc_scan_nl [of False "ls_tarballs name dir" "[]"]
  by (simp add: wc_w_def ls_tarballs_def wc_scan_strip)

lemma n_tarballs_not_one:
  assumes "length (filter (package_tarball name) dir) \<noteq> 1"
  shows "wc_w (ls_tarballs name dir @ [nl]) \<noteq> 1"
proof -
  let ?fs = "filter (glob_match (tarball_glob name)) dir"
  have fs: "?fs = filter (package_tarball name) dir"
    by (rule filter_cong) (simp_all add: glob_tarball)
  show ?thesis
  proof (cases "?fs = []")
    case True
    then show ?thesis by (simp add: n_tarballs_eq)
  next
    case False
    then have "length ?fs \<noteq> 0" by simp
    moreover from assms fs have "length ?fs \<noteq> 1" by simp
    ultimately have "2 \<le> length ?fs" by arith
    with wc_scan_listing [of ?fs] show ?thesis by (simp add: n_tarballs_eq)
  qed
qed

subsection \<open>The guards\<close>

text \<open>
  Claim C9. The script stops with a nonzero exit status, before any conversion or
  upload, whenever one of its preconditions fails: \<^verbatim>\<open>exit -1\<close> when no conda environment
  is active, \<^verbatim>\<open>exit -2\<close> when it does not run on TravisCI with \<^verbatim>\<open>TRAVIS_BRANCH\<close> and
  \<^verbatim>\<open>PACKAGE_NAME\<close> set, \<^verbatim>\<open>exit -3\<close> when the build directory does not hold exactly one
  package tarball.

  The three cases overlap and name three different codes, so they are read in the order
  in which the script tests them: a code is promised when the guards before it have
  passed. In each case the script has run no command at all when it exits, and the
  status byte (255, 254 or 253) is not zero.

  The third case rests on two assumptions about the build directory and the name, both
  needed for ``the package tarballs in the build directory'' to be what the script
  counts. First, \<open>dir\<close> lists the names of the regular files of the build directory, and
  no subdirectory of it has a name that matches the pattern. Second, the name is
  \<open>shell_ordinary\<close>: the script expands \<^verbatim>\<open>${PACKAGE_NAME}\<close> without quotes in front of
  the pattern, and a blank, a pattern character or a slash in it would make the shell
  list other files than those called \<^verbatim>\<open>name-VERSION-BUILD.tar.bz2\<close> in the build
  directory. The names of the files themselves are arbitrary.
\<close>

theorem guards_exit:
  "(CONDA_DEFAULT_ENV e = [] \<longrightarrow>
      conda_upload e dir ok = \<lparr>actions = [], status = - 1\<rparr>) \<and>
   (CONDA_DEFAULT_ENV e \<noteq> [] \<and>
    (TRAVIS e \<noteq> ''true'' \<or> TRAVIS_BRANCH e = [] \<or> PACKAGE_NAME e = []) \<longrightarrow>
      conda_upload e dir ok = \<lparr>actions = [], status = - 2\<rparr>) \<and>
   (CONDA_DEFAULT_ENV e \<noteq> [] \<and> TRAVIS e = ''true'' \<and> TRAVIS_BRANCH e \<noteq> [] \<and>
    PACKAGE_NAME e \<noteq> [] \<and> shell_ordinary (PACKAGE_NAME e) \<and>
    length (filter (package_tarball (PACKAGE_NAME e)) dir) \<noteq> 1 \<longrightarrow>
      conda_upload e dir ok = \<lparr>actions = [], status = - 3\<rparr>) \<and>
   (- 1 :: 8 word) \<noteq> 0 \<and> (- 2 :: 8 word) \<noteq> 0 \<and> (- 3 :: 8 word) \<noteq> 0"
proof (intro conjI impI)
  assume "CONDA_DEFAULT_ENV e = []"
  then show "conda_upload e dir ok = \<lparr>actions = [], status = - 1\<rparr>"
    by (simp add: conda_upload_def)
next
  assume "CONDA_DEFAULT_ENV e \<noteq> [] \<and>
    (TRAVIS e \<noteq> ''true'' \<or> TRAVIS_BRANCH e = [] \<or> PACKAGE_NAME e = [])"
  then show "conda_upload e dir ok = \<lparr>actions = [], status = - 2\<rparr>"
    by (auto simp: conda_upload_def)
next
  assume a: "CONDA_DEFAULT_ENV e \<noteq> [] \<and> TRAVIS e = ''true'' \<and> TRAVIS_BRANCH e \<noteq> [] \<and>
    PACKAGE_NAME e \<noteq> [] \<and> shell_ordinary (PACKAGE_NAME e) \<and>
    length (filter (package_tarball (PACKAGE_NAME e)) dir) \<noteq> 1"
  then have "wc_w (ls_tarballs (PACKAGE_NAME e) dir @ [nl]) \<noteq> 1"
    by (intro n_tarballs_not_one) simp
  with a show "conda_upload e dir ok = \<lparr>actions = [], status = - 3\<rparr>"
    by (simp add: conda_upload_def Let_def)
qed simp_all

theorem guards_exit_witness:
  "conda_upload \<lparr>CONDA_DEFAULT_ENV = '''', TRAVIS = ''true'', TRAVIS_BRANCH = ''master'',
       PACKAGE_NAME = ''pymer4'', ANACONDA_TOKEN = ''secret''\<rparr>
       [''pymer4-0.7.2-py_0.tar.bz2''] True
     = \<lparr>actions = [], status = 255\<rparr> \<and>
   conda_upload \<lparr>CONDA_DEFAULT_ENV = ''base'', TRAVIS = '''', TRAVIS_BRANCH = ''master'',
       PACKAGE_NAME = ''pymer4'', ANACONDA_TOKEN = ''secret''\<rparr>
       [''pymer4-0.7.2-py_0.tar.bz2''] True
     = \<lparr>actions = [], status = 254\<rparr> \<and>
   conda_upload \<lparr>CONDA_DEFAULT_ENV = ''base'', TRAVIS = ''true'', TRAVIS_BRANCH = ''master'',
       PACKAGE_NAME = ''pymer4'', ANACONDA_TOKEN = ''secret''\<rparr>
       [''pymer4-0.7.2-py_0.tar.bz2'', ''pymer4-0.7.3-py_0.tar.bz2''] True
     = \<lparr>actions = [], status = 253\<rparr>"
  using
    guards_exit [of "\<lparr>CONDA_DEFAULT_ENV = '''', TRAVIS = ''true'', TRAVIS_BRANCH = ''master'',
       PACKAGE_NAME = ''pymer4'', ANACONDA_TOKEN = ''secret''\<rparr>"
       "[''pymer4-0.7.2-py_0.tar.bz2'']" True]
    guards_exit [of "\<lparr>CONDA_DEFAULT_ENV = ''base'', TRAVIS = '''', TRAVIS_BRANCH = ''master'',
       PACKAGE_NAME = ''pymer4'', ANACONDA_TOKEN = ''secret''\<rparr>"
       "[''pymer4-0.7.2-py_0.tar.bz2'']" True]
    guards_exit [of "\<lparr>CONDA_DEFAULT_ENV = ''base'', TRAVIS = ''true'', TRAVIS_BRANCH = ''master'',
       PACKAGE_NAME = ''pymer4'', ANACONDA_TOKEN = ''secret''\<rparr>"
       "[''pymer4-0.7.2-py_0.tar.bz2'', ''pymer4-0.7.3-py_0.tar.bz2'']" True]
  by (simp add: shell_ordinary_def glob_tarball [symmetric] tarball_glob_def)

subsection \<open>The label and the upload\<close>

lemma compute_label_cases:
  "(compute_label v m b = ''pre-release'' \<longleftrightarrow> v = m \<and> b = ''master'') \<and>
   (compute_label v m b = ''main'' \<longleftrightarrow> v = m \<and> b = ''v'' @ m)"
  by (auto simp: compute_label_def)

text \<open>
  Once the guards have passed, the upload command runs exactly when the token is neither
  empty nor the placeholder and the label is one of the two upload labels. The label
  comes out of the two sed commands, so the statement is for a name and for file names
  that stand for themselves there.
\<close>

lemma upload_iff:
  assumes "CONDA_DEFAULT_ENV e \<noteq> []" "TRAVIS e = ''true''" "TRAVIS_BRANCH e \<noteq> []"
    "PACKAGE_NAME e \<noteq> []" "wc_w (ls_tarballs (PACKAGE_NAME e) dir @ [nl]) = 1"
    "shell_ordinary (PACKAGE_NAME e)" "regex_ordinary (PACKAGE_NAME e)" "ascii (PACKAGE_NAME e)"
    "\<forall>f \<in> set dir. shell_ordinary f \<and> ascii f"
  shows "(\<exists>c. Run c \<in> set (actions (conda_upload e dir ok))) \<longleftrightarrow>
         ANACONDA_TOKEN e \<noteq> [] \<and> ANACONDA_TOKEN e \<noteq> ''[not_set]'' \<and>
         (let version = sed_version (PACKAGE_NAME e) (ls_tarballs (PACKAGE_NAME e) dir);
              label = compute_label version (sed_mmp version) (TRAVIS_BRANCH e)
          in label = ''main'' \<or> label = ''pre-release'')"
  using assms by (simp add: conda_upload_def Let_def convert_steps_def)

text \<open>
  The test \<^verbatim>\<open>"${version}" = "$mmp"\<close> is meant to hold for a version that is exactly
  Major.Minor.Patch, and it does hold for every such version.
\<close>

lemma sed_mmp_three_part:
  assumes "a \<noteq> []" "b \<noteq> []" "c \<noteq> []"
    "\<forall>x \<in> set a. is_digit x" "\<forall>x \<in> set b. is_digit x" "\<forall>x \<in> set c. is_digit x"
  shows "sed_mmp (a @ ''.'' @ b @ ''.'' @ c) = a @ ''.'' @ b @ ''.'' @ c"
proof -
  have nd: "\<not> is_digit (CHR ''.'')" by (simp add: is_digit_def)
  have "mmp_here (a @ CHR ''.'' # b @ CHR ''.'' # c) = Some (a @ ''.'' @ b @ ''.'' @ c)"
    using assms nd by (simp add: mmp_here_def dropWhile_append2 Let_def
        takeWhile_eq_all_conv[THEN iffD2] dropWhile_eq_Nil_conv[THEN iffD2])
  then show ?thesis using assms(1) by (cases a) (simp_all add: sed_mmp_def)
qed

text \<open>
  It also holds for every version of two numeric parts, because the group
  \<^verbatim>\<open>\([0-9]\+\.\)\<close> may occur once, and for a version with any text in front of the
  numbers, because the pattern is not anchored.
\<close>

lemma sed_mmp_two_part:
  assumes "a \<noteq> []" "b \<noteq> []" "\<forall>c \<in> set a. is_digit c" "\<forall>c \<in> set b. is_digit c"
  shows "sed_mmp (a @ ''.'' @ b) = a @ ''.'' @ b"
proof -
  have nd: "\<not> is_digit (CHR ''.'')" by (simp add: is_digit_def)
  have "mmp_here (a @ CHR ''.'' # b) = Some (a @ ''.'' @ b)"
    using assms nd by (simp add: mmp_here_def dropWhile_append2 Let_def
        takeWhile_eq_all_conv[THEN iffD2] dropWhile_eq_Nil_conv[THEN iffD2])
  then show ?thesis using assms(1) by (cases a) (simp_all add: sed_mmp_def)
qed

lemma sed_mmp_prefix:
  assumes "\<forall>c \<in> set p. \<not> is_digit c" "v \<noteq> []" "sed_mmp v = v"
  shows "sed_mmp (p @ v) = p @ v"
proof -
  from assms(2,3) have v: "sed_mmp_opt v = Some v"
    by (cases "sed_mmp_opt v") (simp_all add: sed_mmp_def)
  from assms(1) have "sed_mmp_opt (p @ v) = Some (p @ v)"
  proof (induction p)
    case Nil
    show ?case using v by simp
  next
    case (Cons c p)
    then have "mmp_here (c # p @ v) = None"
      by (simp add: mmp_here_def)
    with Cons show ?case by simp
  qed
  then show ?thesis by (simp add: sed_mmp_def)
qed

text \<open>
  Claim C3. The upload command runs if and only if the token is set to something other
  than the placeholder and the label is \<^verbatim>\<open>main\<close> or \<^verbatim>\<open>pre-release\<close>; the label becomes
  \<^verbatim>\<open>pre-release\<close> only for a version that is exactly Major.Minor.Patch on branch
  \<^verbatim>\<open>master\<close>, \<^verbatim>\<open>main\<close> only for such a version on the branch \<^verbatim>\<open>v\<close> followed by it,
  and stays \<^verbatim>\<open>dry-run\<close>, with no upload, in every other case.

  The header of the script says the same (the upload only fires for a version that is
  exactly Major.Minor.Patch; other version strings disable uploading entirely). The script
  does otherwise: with the tarball \<^verbatim>\<open>pymer4-0.7-py_0.tar.bz2\<close> on branch \<^verbatim>\<open>master\<close> the
  version is \<^verbatim>\<open>0.7\<close>, sed returns it unchanged, the label is \<^verbatim>\<open>pre-release\<close> and the
  package is uploaded.
\<close>

theorem two_part_version_uploads:
  "sed_version ''pymer4'' (ls_tarballs ''pymer4'' [''pymer4-0.7-py_0.tar.bz2'']) = ''0.7'' \<and>
   sed_mmp ''0.7'' = ''0.7'' \<and>
   conda_upload \<lparr>CONDA_DEFAULT_ENV = ''base'', TRAVIS = ''true'', TRAVIS_BRANCH = ''master'',
       PACKAGE_NAME = ''pymer4'', ANACONDA_TOKEN = ''secret''\<rparr>
       [''pymer4-0.7-py_0.tar.bz2''] True
     = \<lparr>actions =
          [Mkdir ''/home/travis/miniconda/conda-convert/linux-64'',
           Cp ''/home/travis/miniconda/conda-bld/linux-64/pymer4-0.7-py_0.tar.bz2''
              ''/home/travis/miniconda/conda-convert/linux-64'',
           Cd ''/home/travis/miniconda/conda-convert'',
           Conda_convert ''linux-64/pymer4*tar.bz2'',
           Conda_install ''anaconda-client'',
           Run ''anaconda --token secret upload ./**/pymer4*.tar.bz2 --label pre-release --skip-existing''],
        status = 0\<rparr>"
  by code_simp

theorem two_part_version_uploads_witness:
  "Run ''anaconda --token secret upload ./**/pymer4*.tar.bz2 --label pre-release --skip-existing''
     \<in> set (actions (conda_upload
          \<lparr>CONDA_DEFAULT_ENV = ''base'', TRAVIS = ''true'', TRAVIS_BRANCH = ''master'',
            PACKAGE_NAME = ''pymer4'', ANACONDA_TOKEN = ''secret''\<rparr>
          [''pymer4-0.7-py_0.tar.bz2''] True))
   \<and> status (conda_upload
          \<lparr>CONDA_DEFAULT_ENV = ''base'', TRAVIS = ''true'', TRAVIS_BRANCH = ''master'',
            PACKAGE_NAME = ''pymer4'', ANACONDA_TOKEN = ''secret''\<rparr>
          [''pymer4-0.7-py_0.tar.bz2''] True) = 0"
  using two_part_version_uploads by simp

text \<open>
  The same happens with a version that has text in front of its numbers: a release
  tagged \<^verbatim>\<open>vrc1.2.3\<close> of version \<^verbatim>\<open>rc1.2.3\<close> goes to the \<^verbatim>\<open>main\<close> label.
\<close>

lemma prefixed_version_uploads:
  "conda_upload \<lparr>CONDA_DEFAULT_ENV = ''base'', TRAVIS = ''true'', TRAVIS_BRANCH = ''vrc1.2.3'',
       PACKAGE_NAME = ''pymer4'', ANACONDA_TOKEN = ''secret''\<rparr>
       [''pymer4-rc1.2.3-py_0.tar.bz2''] True
     = \<lparr>actions =
          [Mkdir ''/home/travis/miniconda/conda-convert/linux-64'',
           Cp ''/home/travis/miniconda/conda-bld/linux-64/pymer4-rc1.2.3-py_0.tar.bz2''
              ''/home/travis/miniconda/conda-convert/linux-64'',
           Cd ''/home/travis/miniconda/conda-convert'',
           Conda_convert ''linux-64/pymer4*tar.bz2'',
           Conda_install ''anaconda-client'',
           Run ''anaconda --token secret upload ./**/pymer4*.tar.bz2 --label main --skip-existing''],
        status = 0\<rparr>"
  by code_simp

text \<open>
  A version with a suffix after its numbers is held back, as intended: the development
  build \<^verbatim>\<open>0.7.2.dev1\<close> is converted and not uploaded.
\<close>

lemma suffixed_version_is_a_dry_run:
  "conda_upload \<lparr>CONDA_DEFAULT_ENV = ''base'', TRAVIS = ''true'', TRAVIS_BRANCH = ''master'',
       PACKAGE_NAME = ''pymer4'', ANACONDA_TOKEN = ''secret''\<rparr>
       [''pymer4-0.7.2.dev1-py_0.tar.bz2''] True
     = \<lparr>actions =
          [Mkdir ''/home/travis/miniconda/conda-convert/linux-64'',
           Cp ''/home/travis/miniconda/conda-bld/linux-64/pymer4-0.7.2.dev1-py_0.tar.bz2''
              ''/home/travis/miniconda/conda-convert/linux-64'',
           Cd ''/home/travis/miniconda/conda-convert'',
           Conda_convert ''linux-64/pymer4*tar.bz2''],
        status = 0\<rparr>"
  by code_simp

end
